theory Spec2Isabelle
  imports Main
begin

section \<open>Client edit history (client/src/components/document/editor.tsx)\<close>

text \<open>
  The \<open>Editor\<close> component keeps its history in React state: \<open>content\<close>
  (\<open>useState(docData.content)\<close>, a \<open>string | null\<close> since the schema's content column is
  nullable), \<open>undoStack\<close>, \<open>redoStack\<close> and the ref \<open>isUndoRedoAction\<close>. The displayed
  text is \<open>editorRef.current.innerHTML\<close>, which is a separate piece of state: the browser
  changes it when the user types, and \<open>handleInput\<close> reads it back. The field \<open>innerHTML\<close>
  holds what the getter returns. \<open>sent\<close> collects the contents of the \<open>document_edit\<close>
  messages handed to \<open>sendMessage\<close>, oldest first.

  Assigning a string to \<open>innerHTML\<close> parses it into the DOM, and the getter serialises the
  DOM again, so what is read back need not be the string that was written (a bare \<open>&\<close>
  comes back as \<open>&amp;\<close>). The browser's parser and serialiser are outside the repository:
  the functions that assign to \<open>innerHTML\<close> take the round trip as the parameter
  \<open>reparse\<close>, the string read back after a given string was assigned. The timer-driven
  \<open>checkPageOverflow\<close> appends page dividers only to a document taller than one page;
  the model is of documents that fit one page. The component's props stay as they were
  at mount: the page saves the content without fetching the document again.
\<close>

record Editor =
  content :: "string option"
  undoStack :: "string list"
  redoStack :: "string list"
  isUndoRedoAction :: bool
  innerHTML :: string
  sent :: "string list"

text \<open>JavaScript truthiness of a \<open>string | null\<close>: \<open>null\<close> and the empty string are falsy.\<close>

definition truthy :: "string option \<Rightarrow> bool" where
  "truthy c = (case c of None \<Rightarrow> False | Some s \<Rightarrow> s \<noteq> [])"

text \<open>
  The state after mounting on a document whose content is \<open>c0\<close>: the first effect seeds the
  undo stack with the initial content when it is truthy (source comment: "Initialize history
  with initial content"), the second one assigns it to \<open>innerHTML\<close>, again only when it is
  truthy; the element is empty before.
\<close>

definition initEditor :: "(string \<Rightarrow> string) \<Rightarrow> string option \<Rightarrow> Editor" where
  "initEditor reparse c0 =
     \<lparr> content = c0,
       undoStack = (case c0 of None \<Rightarrow> [] | Some s \<Rightarrow> if s \<noteq> [] then [s] else []),
       redoStack = [],
       isUndoRedoAction = False,
       innerHTML = (case c0 of None \<Rightarrow> [] | Some s \<Rightarrow> if s \<noteq> [] then reparse s else []),
       sent = [] \<rparr>"

text \<open>
  \<open>handleInput\<close>. The function is a closure of one render: \<open>content\<close> in its guard is the
  value of that render (the argument \<open>c\<close>), while \<open>setUndoStack(prev => [...prev, c])\<close> is a
  functional update and so applies to the pending stack. When \<open>handleInput\<close> runs as the
  \<open>onInput\<close> handler the render's content is the current one.
\<close>

definition handleInputWith :: "string option \<Rightarrow> Editor \<Rightarrow> Editor" where
  "handleInputWith c s =
     (let newContent = innerHTML s;
          s1 = (if \<not> isUndoRedoAction s \<and> truthy c
                then s\<lparr> undoStack := undoStack s @ [the c], redoStack := [] \<rparr>
                else s\<lparr> isUndoRedoAction := False \<rparr>)
      in s1\<lparr> content := Some newContent, sent := sent s1 @ [newContent] \<rparr>)"

definition handleInput :: "Editor \<Rightarrow> Editor" where
  "handleInput s = handleInputWith (content s) s"

text \<open>
  A local edit: the user's typing changes the DOM, so that the getter now returns \<open>h\<close>,
  then the input event fires.
\<close>

definition localEdit :: "string \<Rightarrow> Editor \<Rightarrow> Editor" where
  "localEdit h s = handleInput (s\<lparr> innerHTML := h \<rparr>)"

fun localEdits :: "string list \<Rightarrow> Editor \<Rightarrow> Editor" where
  "localEdits [] s = s"
| "localEdits (h # hs) s = localEdits hs (localEdit h s)"

text \<open>
  \<open>handleFormat('undo')\<close> and \<open>handleFormat('redo')\<close>: the \<open>case\<close> of the switch, followed
  by the call of \<open>handleInput()\<close> that ends \<open>handleFormat\<close> for every command. All reads of
  \<open>content\<close>, \<open>undoStack\<close> and \<open>redoStack\<close> are those of the render \<open>s\<close>. The
  restored state is assigned to \<open>innerHTML\<close>, and the closing \<open>handleInput()\<close> reads the
  element back, so the content that ends up in React state is the read-back form.
\<close>

definition handleFormat_undo :: "(string \<Rightarrow> string) \<Rightarrow> Editor \<Rightarrow> Editor" where
  "handleFormat_undo reparse s =
     (if length (undoStack s) > 0 then
        let previousState = last (undoStack s);
            newUndoStack = butlast (undoStack s);
            s1 = (if truthy (content s)
                  then s\<lparr> redoStack := redoStack s @ [the (content s)] \<rparr> else s);
            s2 = s1\<lparr> isUndoRedoAction := True \<rparr>;
            s3 = (if previousState \<noteq> []
                  then s2\<lparr> innerHTML := reparse previousState, content := Some previousState,
                          undoStack := newUndoStack, sent := sent s2 @ [previousState] \<rparr>
                  else s2)
        in handleInputWith (content s) s3
      else handleInputWith (content s) s)"

definition handleFormat_redo :: "(string \<Rightarrow> string) \<Rightarrow> Editor \<Rightarrow> Editor" where
  "handleFormat_redo reparse s =
     (if length (redoStack s) > 0 then
        let nextState = last (redoStack s);
            newRedoStack = butlast (redoStack s);
            s1 = (if truthy (content s)
                  then s\<lparr> undoStack := undoStack s @ [the (content s)] \<rparr> else s);
            s2 = s1\<lparr> isUndoRedoAction := True \<rparr>;
            s3 = (if nextState \<noteq> []
                  then s2\<lparr> innerHTML := reparse nextState, content := Some nextState,
                          redoStack := newRedoStack, sent := sent s2 @ [nextState] \<rparr>
                  else s2)
        in handleInputWith (content s) s3
      else handleInputWith (content s) s)"

text \<open>
  For the concrete runs: what a browser reads back for the strings used there, which are
  \<open>a\<close>, \<open>ab\<close>, \<open>abc\<close>, \<open>a&b\<close>, \<open>a&amp;b\<close> and \<open>a&amp;bc\<close>. Each comes back as it
  is, except \<open>a&b\<close>, whose bare ampersand comes back as the entity. The function is not
  meant for other strings.
\<close>

definition readBackExample :: "string \<Rightarrow> string" where
  "readBackExample s = (if s = ''a&b'' then ''a&amp;b'' else s)"


section \<open>The document store (server/storage.ts, shared/schema.ts)\<close>

text \<open>
  The rows of the schema, with the columns the synchronization protocol reads. Timestamps,
  passwords and avatar URLs are never read by it and are left out. A document's content
  column is nullable.
\<close>

record User =
  user_id :: int
  username :: string
  name :: string

record Document =
  doc_id :: int
  title :: string
  doc_content :: "string option"
  ownerId :: int

record Collaborator =
  collab_id :: int
  collab_documentId :: int
  collab_userId :: int
  role :: string

text \<open>
  Every operation of \<open>IStorage\<close> returns a promise; a rejected promise (a thrown error) is
  the \<open>Inl\<close> of the result, \<open>undefined\<close> is \<open>None\<close>. The protocol is written against the
  interface, so the model takes the four operations it calls as a record of functions over
  the store's state \<open>'s\<close>. \<open>updateDocument\<close> is only ever called with \<open>{ content }\<close>;
  when it rejects, the protocol goes on with the store it had.
\<close>

datatype StoreError = UserMissing int | QueryFailed

record 's IStorage =
  getUser :: "'s \<Rightarrow> int \<Rightarrow> StoreError + User option"
  getDocument :: "'s \<Rightarrow> int \<Rightarrow> StoreError + Document option"
  getCollaborators :: "'s \<Rightarrow> int \<Rightarrow> StoreError + (Collaborator \<times> User) list"
  updateDocument :: "'s \<Rightarrow> int \<Rightarrow> string \<Rightarrow> StoreError + ('s \<times> Document option)"

subsection \<open>\<open>MemStorage\<close>\<close>

text \<open>The three \<open>Map\<close>s of the class; \<open>collaborators\<close> as its values in insertion order.\<close>

record MemStore =
  users :: "int \<rightharpoonup> User"
  documents :: "int \<rightharpoonup> Document"
  collaborators :: "Collaborator list"

definition mem_getUser :: "MemStore \<Rightarrow> int \<Rightarrow> StoreError + User option" where
  "mem_getUser m i = Inr (users m i)"

definition mem_getDocument :: "MemStore \<Rightarrow> int \<Rightarrow> StoreError + Document option" where
  "mem_getDocument m i = Inr (documents m i)"

text \<open>The \<open>map\<close> of \<open>getCollaborators\<close> throws at the first grant whose user is missing.\<close>

fun attachUsers :: "(int \<rightharpoonup> User) \<Rightarrow> Collaborator list \<Rightarrow> StoreError + (Collaborator \<times> User) list" where
  "attachUsers us [] = Inr []"
| "attachUsers us (collab # rest) =
     (case us (collab_userId collab) of
        None \<Rightarrow> Inl (UserMissing (collab_userId collab))
      | Some user \<Rightarrow>
          (case attachUsers us rest of
             Inl e \<Rightarrow> Inl e
           | Inr r \<Rightarrow> Inr ((collab, user) # r)))"

definition mem_getCollaborators :: "MemStore \<Rightarrow> int \<Rightarrow> StoreError + (Collaborator \<times> User) list" where
  "mem_getCollaborators m did =
     attachUsers (users m) (filter (\<lambda>collab. collab_documentId collab = did) (collaborators m))"

definition mem_updateDocument :: "MemStore \<Rightarrow> int \<Rightarrow> string \<Rightarrow> StoreError + (MemStore \<times> Document option)" where
  "mem_updateDocument m i c =
     (case documents m i of
        None \<Rightarrow> Inr (m, None)
      | Some document \<Rightarrow>
          (let updatedDocument = document\<lparr> doc_content := Some c \<rparr>
           in Inr (m\<lparr> documents := (documents m)(i \<mapsto> updatedDocument) \<rparr>, Some updatedDocument)))"

definition mem_deleteDocument :: "MemStore \<Rightarrow> int \<Rightarrow> MemStore \<times> bool" where
  "mem_deleteDocument m i = (m\<lparr> documents := (documents m)(i := None) \<rparr>, documents m i \<noteq> None)"

definition MemStorage :: "MemStore IStorage" where
  "MemStorage =
     \<lparr> getUser = mem_getUser, getDocument = mem_getDocument,
       getCollaborators = mem_getCollaborators, updateDocument = mem_updateDocument \<rparr>"

subsection \<open>\<open>DatabaseStorage\<close>\<close>










section \<open>The synchronization protocol (server/websocket.ts)\<close>

text \<open>
  A connection handle (\<open>ws\<close>) is a number. \<open>Client\<close> is the tuple of the session registry
  \<open>clients\<close>. The server reads a socket's \<open>readyState\<close> and never writes it.
\<close>

datatype ReadyState = CONNECTING | OPEN | CLOSING | CLOSED

record Client =
  userId :: int
  documentId :: int
  ws :: nat

text \<open>
  What \<open>JSON.parse\<close> returns. A number is \<open>JInt\<close> when its value is an integer and
  \<open>JNonInt\<close> otherwise; an object is its members in the order of the text, where a
  repeated key takes its last value. (Not every \<open>JInt\<close> is a value \<open>JSON.parse\<close> can
  return, since it returns doubles; the model has more frames than the code can meet, not
  fewer.)
\<close>

datatype json =
    JNull
  | JBool bool
  | JInt int
  | JNonInt
  | JStr string
  | JArr "json list"
  | JObj "(string \<times> json) list"

datatype JsError = SyntaxError | TypeError

text \<open>
  Reading the property \<open>k\<close> of a parsed value, for the keys the handler reads (\<open>type\<close>,
  \<open>userId\<close>, \<open>documentId\<close>, \<open>content\<close>, \<open>cursorPosition\<close>, \<open>position\<close>): on \<open>null\<close>
  the read throws a \<open>TypeError\<close>; on an object it gives the member or \<open>undefined\<close>
  (\<open>None\<close>); on a boolean, number, string or array it gives \<open>undefined\<close>.
\<close>

fun property :: "json \<Rightarrow> string \<Rightarrow> JsError + json option" where
  "property JNull k = Inl TypeError"
| "property (JObj members) k = Inr (map_of (rev members) k)"
| "property data k = Inr None"

definition field :: "json \<Rightarrow> string \<Rightarrow> json option" where
  "field data k = (case property data k of Inl e \<Rightarrow> None | Inr v \<Rightarrow> v)"

text \<open>
  What the message handler has in hand once it has chosen its branch. \<open>Malformed\<close> is a
  frame on which the \<open>try\<close> block throws before any branch is chosen: \<open>JSON.parse\<close>
  throws, or it returns \<open>null\<close> and reading \<open>data.type\<close> throws. \<open>Unknown_type\<close> is a
  frame that parses to a value other than \<open>null\<close> whose \<open>type\<close> is none of the three
  the handler tests for. The other three carry the payload the branch destructures: ids
  as integers and the content as a string, which is what the interfaces \<open>Client\<close> and
  \<open>DocumentEdit\<close> declare; \<open>cursorPosition\<close> and \<open>position\<close> are handed on to the
  other participants unread, so they are carried as the JSON they are (\<open>None\<close> when
  absent).
\<close>

datatype ClientMsg =
    Malformed
  | Auth int int
  | Document_edit int string "json option"
  | Cursor_position "json option"
  | Unknown_type

text \<open>
  From the raw frame (the result of \<open>JSON.parse\<close>) to the branch and its payload, by the
  tests of the handler in their order. The result is \<open>None\<close> for a frame of a known type
  whose ids or content are not of the declared types: how the code goes on with such a
  payload depends on how the store treats a key that is not a number, and is outside this
  model.
\<close>

definition classify :: "JsError + json \<Rightarrow> ClientMsg option" where
  "classify raw =
     (case raw of
        Inl e \<Rightarrow> Some Malformed
      | Inr data \<Rightarrow>
          (case property data ''type'' of
             Inl e \<Rightarrow> Some Malformed
           | Inr t \<Rightarrow>
               if t = Some (JStr ''auth'') then
                 (case (field data ''userId'', field data ''documentId'') of
                    (Some (JInt uid), Some (JInt did)) \<Rightarrow> Some (Auth uid did)
                  | _ \<Rightarrow> None)
               else if t = Some (JStr ''document_edit'') then
                 (case (field data ''documentId'', field data ''content'') of
                    (Some (JInt did), Some (JStr c)) \<Rightarrow>
                      Some (Document_edit did c (field data ''cursorPosition''))
                  | _ \<Rightarrow> None)
               else if t = Some (JStr ''cursor_position'') then
                 Some (Cursor_position (field data ''position''))
               else Some Unknown_type))"

datatype ServerMsg =
    Error_msg string
  | User_joined int string string
  | Document_data int "string option"
  | Active_users "(int \<times> string \<times> string) list"
  | Document_update int string int "json option"
  | Cursor_update int string string "json option"
  | User_left int

text \<open>
  What a handler does to the outside, in the order it does it: \<open>Send w m\<close> is a call of
  \<open>w.send(JSON.stringify(m))\<close>, \<open>UpdateDocumentCall d c\<close> the awaited call of
  \<open>storage.updateDocument(d, { content: c })\<close>, whether it resolves or rejects.
\<close>

datatype Effect = Send nat ServerMsg | UpdateDocumentCall int string

text \<open>
  \<open>clients\<close> is the array shared by all connections, \<open>clientInfo\<close> the variable of that
  name in each connection's closure (\<open>null\<close> until the connection authenticates).
\<close>

record 's Server =
  clients :: "Client list"
  clientInfo :: "nat \<Rightarrow> Client option"
  readyState :: "nat \<Rightarrow> ReadyState"
  storage :: 's

definition initServer :: "'s \<Rightarrow> 's Server" where
  "initServer sto =
     \<lparr> clients = [], clientInfo = (\<lambda>_. None), readyState = (\<lambda>_. CLOSED), storage = sto \<rparr>"

definition onConnection :: "nat \<Rightarrow> 's Server \<Rightarrow> 's Server" where
  "onConnection sock st =
     st\<lparr> clientInfo := (clientInfo st)(sock := None), readyState := (readyState st)(sock := OPEN) \<rparr>"

definition broadcastToDocument :: "'s Server \<Rightarrow> int \<Rightarrow> ServerMsg \<Rightarrow> nat option \<Rightarrow> Effect list" where
  "broadcastToDocument st did data excludeWs =
     map (\<lambda>client. Send (ws client) data)
       (filter (\<lambda>client. documentId client = did \<and> Some (ws client) \<noteq> excludeWs
                         \<and> readyState st (ws client) = OPEN)
          (clients st))"

text \<open>The \<open>catch\<close> block around the whole message handler.\<close>

definition caught :: "nat \<Rightarrow> Effect list" where
  "caught sock = [Send sock (Error_msg ''Invalid message format'')]"

text \<open>\<open>Promise.all\<close> over the lookups of the active users: one rejection rejects the whole.\<close>

fun resolveUsers :: "'s IStorage \<Rightarrow> 's \<Rightarrow> Client list \<Rightarrow> StoreError + (int \<times> string \<times> string) option list" where
  "resolveUsers S sto [] = Inr []"
| "resolveUsers S sto (client # rest) =
     (case getUser S sto (userId client) of
        Inl e \<Rightarrow> Inl e
      | Inr user \<Rightarrow>
          (case resolveUsers S sto rest of
             Inl e \<Rightarrow> Inl e
           | Inr r \<Rightarrow> Inr (map_option (\<lambda>u. (user_id u, username u, name u)) user # r)))"

text \<open>The second half of the \<open>auth\<close> branch, from "Register client" on.\<close>

definition registerClient :: "'s IStorage \<Rightarrow> nat \<Rightarrow> int \<Rightarrow> int \<Rightarrow> User \<Rightarrow> Document \<Rightarrow> 's Server \<Rightarrow> 's Server \<times> Effect list" where
  "registerClient S sock uid did user document st =
     (let info = \<lparr> userId = uid, documentId = did, ws = sock \<rparr>;
          st1 = st\<lparr> clients := clients st @ [info], clientInfo := (clientInfo st)(sock \<mapsto> info) \<rparr>;
          joined = broadcastToDocument st1 did (User_joined uid (username user) (name user)) (Some sock);
          data = Send sock (Document_data did (doc_content document))
      in case resolveUsers S (storage st1) (filter (\<lambda>client. documentId client = did) (clients st1)) of
           Inl e \<Rightarrow> (st1, joined @ [data] @ caught sock)
         | Inr resolvedUsers \<Rightarrow>
             (st1, joined @ [data, Send sock (Active_users (List.map_filter id resolvedUsers))]))"

definition handleAuth :: "'s IStorage \<Rightarrow> nat \<Rightarrow> int \<Rightarrow> int \<Rightarrow> 's Server \<Rightarrow> 's Server \<times> Effect list" where
  "handleAuth S sock uid did st =
     (case getUser S (storage st) uid of
        Inl e \<Rightarrow> (st, caught sock)
      | Inr None \<Rightarrow> (st, [Send sock (Error_msg ''User not found'')])
      | Inr (Some user) \<Rightarrow>
          (case getDocument S (storage st) did of
             Inl e \<Rightarrow> (st, caught sock)
           | Inr None \<Rightarrow> (st, [Send sock (Error_msg ''Document not found'')])
           | Inr (Some document) \<Rightarrow>
               (if ownerId document \<noteq> uid then
                  (case getCollaborators S (storage st) did of
                     Inl e \<Rightarrow> (st, caught sock)
                   | Inr collabs \<Rightarrow>
                       (if \<not> list_ex (\<lambda>collab. collab_userId (fst collab) = uid) collabs
                        then (st, [Send sock (Error_msg ''No access to document'')])
                        else registerClient S sock uid did user document st))
                else registerClient S sock uid did user document st)))"

definition handleDocumentEdit :: "'s IStorage \<Rightarrow> nat \<Rightarrow> int \<Rightarrow> string \<Rightarrow> json option \<Rightarrow> 's Server \<Rightarrow> 's Server \<times> Effect list" where
  "handleDocumentEdit S sock did c cursorPosition st =
     (case clientInfo st sock of
        None \<Rightarrow> (st, [Send sock (Error_msg ''Not authenticated'')])
      | Some info \<Rightarrow>
          (if did \<noteq> documentId info then (st, [Send sock (Error_msg ''Invalid document ID'')])
           else
             (case updateDocument S (storage st) did c of
                Inl e \<Rightarrow> (st, UpdateDocumentCall did c # caught sock)
              | Inr (sto, updated) \<Rightarrow>
                  (st\<lparr> storage := sto \<rparr>,
                   UpdateDocumentCall did c #
                   broadcastToDocument st did
                     (Document_update did c (userId info) cursorPosition) (Some sock)))))"

definition handleCursorPosition :: "'s IStorage \<Rightarrow> nat \<Rightarrow> json option \<Rightarrow> 's Server \<Rightarrow> 's Server \<times> Effect list" where
  "handleCursorPosition S sock pos st =
     (case clientInfo st sock of
        None \<Rightarrow> (st, [Send sock (Error_msg ''Not authenticated'')])
      | Some info \<Rightarrow>
          (case getUser S (storage st) (userId info) of
             Inl e \<Rightarrow> (st, caught sock)
           | Inr None \<Rightarrow> (st, [Send sock (Error_msg ''User not found'')])
           | Inr (Some user) \<Rightarrow>
               (st, broadcastToDocument st (documentId info)
                      (Cursor_update (user_id user) (username user) (name user) pos) (Some sock))))"

text \<open>
  The \<open>message\<close> handler of a connection, from the chosen branch on. A frame of unknown
  type falls through the \<open>if\<close>/\<open>else if\<close> chain, which has no final \<open>else\<close>.
\<close>

definition onMessage :: "'s IStorage \<Rightarrow> nat \<Rightarrow> ClientMsg \<Rightarrow> 's Server \<Rightarrow> 's Server \<times> Effect list" where
  "onMessage S sock msg st =
     (case msg of
        Malformed \<Rightarrow> (st, caught sock)
      | Auth uid did \<Rightarrow> handleAuth S sock uid did st
      | Document_edit did c cursorPosition \<Rightarrow> handleDocumentEdit S sock did c cursorPosition st
      | Cursor_position pos \<Rightarrow> handleCursorPosition S sock pos st
      | Unknown_type \<Rightarrow> (st, []))"

text \<open>The \<open>message\<close> handler on a raw frame.\<close>

definition onFrame :: "'s IStorage \<Rightarrow> nat \<Rightarrow> JsError + json \<Rightarrow> 's Server \<Rightarrow> ('s Server \<times> Effect list) option" where
  "onFrame S sock raw st = map_option (\<lambda>msg. onMessage S sock msg st) (classify raw)"

text \<open>\<open>Array.findIndex\<close> (\<open>None\<close> for -1) and \<open>splice(index, 1)\<close>.\<close>

fun findIndex :: "('a \<Rightarrow> bool) \<Rightarrow> 'a list \<Rightarrow> nat option" where
  "findIndex P [] = None"
| "findIndex P (x # xs) = (if P x then Some 0 else map_option Suc (findIndex P xs))"

definition splice1 :: "nat \<Rightarrow> 'a list \<Rightarrow> 'a list" where
  "splice1 i xs = take i xs @ drop (Suc i) xs"

text \<open>
  The \<open>close\<close> handler of a connection. The event is emitted once the socket's
  \<open>readyState\<close> is \<open>CLOSED\<close>, so the broadcast of \<open>user_left\<close>, which excludes no socket,
  skips the closing one.
\<close>

definition onClose :: "nat \<Rightarrow> 's Server \<Rightarrow> 's Server \<times> Effect list" where
  "onClose sock st0 =
     (let st = st0\<lparr> readyState := (readyState st0)(sock := CLOSED) \<rparr>
      in case clientInfo st sock of
           None \<Rightarrow> (st, [])
         | Some info \<Rightarrow>
             (case findIndex (\<lambda>c. userId c = userId info \<and> documentId c = documentId info)
                     (clients st) of
                None \<Rightarrow> (st, [])
              | Some index \<Rightarrow>
                  (let st1 = st\<lparr> clients := splice1 index (clients st) \<rparr>
                   in (st1, broadcastToDocument st1 (documentId info) (User_left (userId info)) None))))"

text \<open>Running a sequence of events of the server, collecting what it does.\<close>

datatype Event = Connection nat | Message nat ClientMsg | Close nat

fun step :: "'s IStorage \<Rightarrow> Event \<Rightarrow> 's Server \<Rightarrow> 's Server \<times> Effect list" where
  "step S (Connection sock) st = (onConnection sock st, [])"
| "step S (Message sock msg) st = onMessage S sock msg st"
| "step S (Close sock) st = onClose sock st"

fun run :: "'s IStorage \<Rightarrow> Event list \<Rightarrow> 's Server \<Rightarrow> 's Server \<times> Effect list" where
  "run S [] st = (st, [])"
| "run S (e # es) st =
     (case step S e st of (st1, out1) \<Rightarrow>
        (case run S es st1 of (st2, out2) \<Rightarrow> (st2, out1 @ out2)))"




subsection \<open>A small deployment for concrete runs\<close>

text \<open>
  Three users and one document, number 3, owned by Alice; Bob holds a \<open>viewer\<close> grant on
  it and Carol holds none. \<open>aliceAndBob\<close> is the server after Alice and Bob have each
  connected and subscribed to the document, on sockets 1 and 2.
\<close>

definition alice :: User where
  "alice = \<lparr> user_id = 1, username = ''alice'', name = ''Alice'' \<rparr>"
definition bob :: User where
  "bob = \<lparr> user_id = 2, username = ''bob'', name = ''Bob'' \<rparr>"
definition carol :: User where
  "carol = \<lparr> user_id = 3, username = ''carol'', name = ''Carol'' \<rparr>"

definition exampleStore :: MemStore where
  "exampleStore =
     \<lparr> users = [1 \<mapsto> alice, 2 \<mapsto> bob, 3 \<mapsto> carol],
       documents = [3 \<mapsto> \<lparr> doc_id = 3, title = ''Notes'', doc_content = Some ''old'', ownerId = 1 \<rparr>],
       collaborators = [\<lparr> collab_id = 1, collab_documentId = 3, collab_userId = 2, role = ''viewer'' \<rparr>] \<rparr>"


definition aliceAndBob :: "'s IStorage \<Rightarrow> 's \<Rightarrow> 's Server" where
  "aliceAndBob S sto =
     fst (run S [Connection 1, Message 1 (Auth 1 3), Connection 2, Message 2 (Auth 2 3)]
            (initServer sto))"

text \<open>
  \<open>bobInTwoTabs\<close>: Bob has the document open in two browser tabs, sockets 1 and 2, and
  Alice has it open on socket 5.
\<close>

definition bobInTwoTabs :: "MemStore Server" where
  "bobInTwoTabs =
     fst (run MemStorage
            [Connection 1, Message 1 (Auth 2 3), Connection 2, Message 2 (Auth 2 3),
             Connection 5, Message 5 (Auth 1 3)]
            (initServer exampleStore))"


section \<open>Properties of the client edit history\<close>

subsection \<open>Local edits\<close>

lemma localEdit_unflagged:
  assumes "\<not> isUndoRedoAction s"
  shows "\<not> isUndoRedoAction (localEdit h s)"
    and "content (localEdit h s) = Some h"
    and "redoStack (localEdit h s) = (if truthy (content s) then [] else redoStack s)"
    and "undoStack (localEdit h s) =
           (if truthy (content s) then undoStack s @ [the (content s)] else undoStack s)"
  using assms by (simp_all add: localEdit_def handleInput_def handleInputWith_def Let_def)

lemma localEdits_snoc: "localEdits (hs @ [h]) s = localEdit h (localEdits hs s)"
  by (induction hs arbitrary: s) simp_all

lemma localEdits_unflagged:
  "\<not> isUndoRedoAction s \<Longrightarrow> \<not> isUndoRedoAction (localEdits hs s)"
  by (induction hs arbitrary: s) (simp_all add: localEdit_unflagged(1))

lemma localEdits_content:
  "\<not> isUndoRedoAction s \<Longrightarrow>
   content (localEdits hs s) = (if hs = [] then content s else Some (last hs))"
proof (induction hs rule: rev_induct)
  case Nil
  then show ?case by simp
next
  case (snoc h hs)
  then show ?case
    by (simp add: localEdits_snoc localEdit_unflagged(2) localEdits_unflagged)
qed

lemma localEdits_truthy:
  assumes "\<not> isUndoRedoAction s" "truthy (content s)" "\<forall>h\<in>set hs. h \<noteq> []"
  shows "truthy (content (localEdits hs s))"
  using assms by (simp add: localEdits_content truthy_def)

lemma localEdits_undoStack:
  assumes "\<not> isUndoRedoAction s" "truthy (content s)" "\<forall>h\<in>set hs. h \<noteq> []"
  shows "undoStack (localEdits hs s) =
           undoStack s @ map (\<lambda>i. the (content (localEdits (take i hs) s))) [0..<length hs]"
  using assms(3)
proof (induction hs rule: rev_induct)
  case Nil
  then show ?case by simp
next
  case (snoc h hs)
  have ne: "\<forall>x\<in>set hs. x \<noteq> []" using snoc.prems by simp
  have t: "truthy (content (localEdits hs s))"
    using localEdits_truthy [OF assms(1,2) ne] .
  have f: "\<not> isUndoRedoAction (localEdits hs s)"
    using localEdits_unflagged [OF assms(1)] .
  have step: "undoStack (localEdits (hs @ [h]) s) =
          undoStack (localEdits hs s) @ [the (content (localEdits hs s))]"
    by (simp add: localEdits_snoc localEdit_unflagged(4) [OF f] t)
  show ?case
    by (simp add: step snoc.IH [OF ne])
qed

lemma initEditor_simps:
  "c0 \<noteq> [] \<Longrightarrow> undoStack (initEditor reparse (Some c0)) = [c0]"
  "\<not> isUndoRedoAction (initEditor reparse c)"
  "content (initEditor reparse c) = c"
  by (simp_all add: initEditor_def)

lemmas editor_defs =
  initEditor_def localEdit_def handleInput_def handleInputWith_def truthy_def
  handleFormat_undo_def handleFormat_redo_def readBackExample_def Let_def

text \<open>
  Claim C2, as the spec states it: after \<open>n\<close> local edits without undo or redo the undo
  stack has length exactly \<open>n\<close>. On the code this fails already for one edit: the component
  seeds the stack with the document's initial content, so the stack holds two entries after
  the first edit of a document that started as \<open>a\<close>.
\<close>

theorem undo_stack_length_counterexample:
  "length (undoStack (localEdits [''ab''] (initEditor readBackExample (Some ''a''))))
     \<noteq> length [''ab'']"
  by (simp add: editor_defs)

text \<open>
  Claim C2, amended: on a document whose initial content \<open>c0\<close> is not empty, after \<open>n\<close> local
  edits none of which leaves the editor empty, the undo stack has length \<open>n + 1\<close>: its first
  entry is the seeded initial content, and for every \<open>i\<close> the entry after it at position
  \<open>i + 1\<close> is the content held immediately before the \<open>i\<close>-th edit (counting from 0).
  This holds whatever the browser's read-back of the initial content is.
\<close>

theorem undo_stack_after_local_edits:
  assumes "c0 \<noteq> []" and "\<forall>h\<in>set hs. h \<noteq> []"
  shows "length (undoStack (localEdits hs (initEditor reparse (Some c0)))) = length hs + 1
       \<and> undoStack (localEdits hs (initEditor reparse (Some c0))) ! 0 = c0
       \<and> (\<forall>i<length hs. undoStack (localEdits hs (initEditor reparse (Some c0))) ! (i + 1)
              = the (content (localEdits (take i hs) (initEditor reparse (Some c0)))))"
proof -
  let ?s = "initEditor reparse (Some c0)"
  have t: "truthy (content ?s)" using assms(1) by (simp add: initEditor_simps truthy_def)
  have u: "undoStack (localEdits hs ?s) =
      [c0] @ map (\<lambda>i. the (content (localEdits (take i hs) ?s))) [0..<length hs]"
    using localEdits_undoStack [OF initEditor_simps(2) t assms(2)] assms(1)
    by (simp add: initEditor_simps)
  show ?thesis by (simp add: u)
qed

theorem undo_stack_after_local_edits_witness:
  "length (undoStack (localEdits [''ab'', ''abc''] (initEditor readBackExample (Some ''a'')))) = 3
   \<and> undoStack (localEdits [''ab'', ''abc''] (initEditor readBackExample (Some ''a'')))
       = [''a'', ''a'', ''ab'']"
  using undo_stack_after_local_edits [of "''a''" "[''ab'', ''abc'']" readBackExample]
  by (simp add: editor_defs)

subsection \<open>Undo followed by redo\<close>


text \<open>
  Claim C5, as the spec states it, for every client state: undo followed by redo gives back
  the content held before. Two things in the code stand against it. The current content is
  pushed onto the redo stack only when it is truthy, so after the user has emptied a
  document that started as \<open>a\<close>, undo brings \<open>a\<close> back and redo has nothing to restore
  the empty content from. And the content that undo and redo leave in the state is read
  back from the element, so on a document mounted with the content \<open>a&b\<close> the pair ends
  with \<open>a&amp;b\<close>.
\<close>

theorem undo_redo_counterexample:
  "content (handleFormat_redo readBackExample (handleFormat_undo readBackExample
       (localEdit [] (initEditor readBackExample (Some ''a'')))))
     \<noteq> content (localEdit [] (initEditor readBackExample (Some ''a'')))
   \<and> content (handleFormat_redo readBackExample (handleFormat_undo readBackExample
       (initEditor readBackExample (Some ''a&b''))))
     \<noteq> content (initEditor readBackExample (Some ''a&b''))"
  by (simp add: editor_defs)

lemma handleFormat_undo_applied:
  assumes "undoStack s \<noteq> []" "last (undoStack s) \<noteq> []" "truthy (content s)"
  shows "handleFormat_undo reparse s =
     s\<lparr> redoStack := redoStack s @ [the (content s)], isUndoRedoAction := False,
        innerHTML := reparse (last (undoStack s)),
        content := Some (reparse (last (undoStack s))),
        undoStack := butlast (undoStack s),
        sent := sent s @ [last (undoStack s), reparse (last (undoStack s))] \<rparr>"
  using assms by (simp add: handleFormat_undo_def handleInputWith_def Let_def)

text \<open>
  Claim C5, amended: take a client state whose undo stack is not empty, whose top undo
  entry is not empty and does not read back empty from the element, and whose current
  content is not empty and reads back from the element unchanged. Then undo followed by
  redo yields content equal to the content before the undo and leaves both stack depths
  as they were: the redo stack is what it was, and the undo stack is what it was with its
  top entry in read-back form.
\<close>

theorem undo_then_redo_restores:
  assumes "undoStack s \<noteq> []"
    and "last (undoStack s) \<noteq> []"
    and "reparse (last (undoStack s)) \<noteq> []"
    and "content s = Some c" and "c \<noteq> []" and "reparse c = c"
  shows "content (handleFormat_redo reparse (handleFormat_undo reparse s)) = content s
       \<and> length (undoStack (handleFormat_redo reparse (handleFormat_undo reparse s)))
           = length (undoStack s)
       \<and> length (redoStack (handleFormat_redo reparse (handleFormat_undo reparse s)))
           = length (redoStack s)
       \<and> redoStack (handleFormat_redo reparse (handleFormat_undo reparse s)) = redoStack s
       \<and> undoStack (handleFormat_redo reparse (handleFormat_undo reparse s))
           = butlast (undoStack s) @ [reparse (last (undoStack s))]"
proof -
  have t: "truthy (content s)" using assms(4,5) by (simp add: truthy_def)
  have u: "handleFormat_undo reparse s =
     s\<lparr> redoStack := redoStack s @ [c], isUndoRedoAction := False,
        innerHTML := reparse (last (undoStack s)),
        content := Some (reparse (last (undoStack s))),
        undoStack := butlast (undoStack s),
        sent := sent s @ [last (undoStack s), reparse (last (undoStack s))] \<rparr>"
    using handleFormat_undo_applied [OF assms(1,2) t, of reparse] assms(4) by simp
  show ?thesis
    unfolding u using assms
    by (simp add: handleFormat_redo_def handleInputWith_def Let_def truthy_def)
qed

theorem undo_then_redo_restores_witness:
  "undoStack (localEdit ''a&amp;bc'' (initEditor readBackExample (Some ''a&b''))) = [''a&b'', ''a&b'']
   \<and> readBackExample ''a&b'' = ''a&amp;b''
   \<and> content (localEdit ''a&amp;bc'' (initEditor readBackExample (Some ''a&b''))) = Some ''a&amp;bc''
   \<and> readBackExample ''a&amp;bc'' = ''a&amp;bc''
   \<and> content (handleFormat_undo readBackExample
        (localEdit ''a&amp;bc'' (initEditor readBackExample (Some ''a&b''))))
       = Some ''a&amp;b''
   \<and> content (handleFormat_redo readBackExample (handleFormat_undo readBackExample
        (localEdit ''a&amp;bc'' (initEditor readBackExample (Some ''a&b'')))))
       = Some ''a&amp;bc''
   \<and> undoStack (handleFormat_redo readBackExample (handleFormat_undo readBackExample
        (localEdit ''a&amp;bc'' (initEditor readBackExample (Some ''a&b'')))))
       = [''a&b'', ''a&amp;b'']"
  using undo_then_redo_restores
    [of "localEdit ''a&amp;bc'' (initEditor readBackExample (Some ''a&b''))"
        readBackExample "''a&amp;bc''"]
  by (simp add: editor_defs)


section \<open>Properties of the synchronization protocol\<close>

subsection \<open>Evaluation rules and the broadcast helper\<close>

lemmas server_defs =
  onConnection_def initServer_def onMessage_def handleAuth_def
  registerClient_def handleDocumentEdit_def handleCursorPosition_def onClose_def
  broadcastToDocument_def caught_def splice1_def Let_def List.map_filter_def
lemmas frame_defs = onFrame_def classify_def field_def
lemmas mem_defs =
  MemStorage_def mem_getUser_def mem_getDocument_def mem_getCollaborators_def
  mem_updateDocument_def exampleStore_def alice_def bob_def carol_def

lemma aliceAndBob_mem:
  "aliceAndBob MemStorage exampleStore =
     \<lparr> clients = [\<lparr> userId = 1, documentId = 3, ws = 1 \<rparr>, \<lparr> userId = 2, documentId = 3, ws = 2 \<rparr>],
       clientInfo = (\<lambda>_. None)(1 \<mapsto> \<lparr> userId = 1, documentId = 3, ws = 1 \<rparr>,
                                2 \<mapsto> \<lparr> userId = 2, documentId = 3, ws = 2 \<rparr>),
       readyState = (\<lambda>_. CLOSED)(1 := OPEN, 2 := OPEN),
       storage = exampleStore \<rparr>"
  by (simp add: aliceAndBob_def server_defs mem_defs)


lemma broadcast_member:
  "Send w m \<in> set (broadcastToDocument st d data ex) \<longleftrightarrow>
     m = data \<and> (\<exists>c\<in>set (clients st). ws c = w \<and> documentId c = d \<and> Some w \<noteq> ex
                    \<and> readyState st w = OPEN)"
  by (auto simp: broadcastToDocument_def)

lemma registerClient_readyState:
  "readyState (fst (registerClient S sock uid did user document st)) = readyState st"
  by (simp add: registerClient_def Let_def split: sum.splits)

lemma handleAuth_readyState: "readyState (fst (handleAuth S sock uid did st)) = readyState st"
  by (simp add: handleAuth_def registerClient_readyState split: sum.splits option.splits)

lemma onMessage_readyState: "readyState (fst (onMessage S sock msg st)) = readyState st"
  by (cases msg)
     (simp_all add: onMessage_def handleAuth_readyState handleDocumentEdit_def
        handleCursorPosition_def split: sum.splits option.splits prod.splits)


subsection \<open>Who may edit\<close>

text \<open>
  Claim C1: an edit of a collaborator is accepted only if the collaborator's role is
  \<open>editor\<close>; a \<open>viewer\<close> or \<open>commenter\<close> cannot change the stored content through an
  edit message. The \<open>document_edit\<close> branch never reads the role (the REST route
  \<open>PATCH /api/documents/:id\<close> does, under the comment "Check if user is owner or editor
  collaborator"). Run on the code: Bob, whose only grant on document 3 is \<open>viewer\<close>,
  subscribes and sends an edit; the store then holds his text and he gets no error.
\<close>

theorem viewer_edit_changes_store:
  "map (\<lambda>g. (collab_documentId g, collab_userId g, role g)) (collaborators exampleStore) = [(3, 2, ''viewer'')]
   \<and> map_option doc_content (documents exampleStore 3) = Some (Some ''old'')
   \<and> map_option doc_content
        (documents (storage (fst (run MemStorage
            [Connection 7, Message 7 (Auth 2 3), Message 7 (Document_edit 3 ''X'' None)]
            (initServer exampleStore)))) 3) = Some (Some ''X'')
   \<and> snd (run MemStorage
            [Connection 7, Message 7 (Auth 2 3), Message 7 (Document_edit 3 ''X'' None)]
            (initServer exampleStore))
       = [Send 7 (Document_data 3 (Some ''old'')), Send 7 (Active_users [(2, ''bob'', ''Bob'')]),
          UpdateDocumentCall 3 ''X'']"
  by (simp add: server_defs mem_defs)

subsection \<open>Malformed frames\<close>

lemma property_of_value: "data \<noteq> JNull \<Longrightarrow> \<exists>t. property data k = Inr t"
  by (cases data) simp_all

lemma onFrame_readyState:
  "onFrame S sock raw st = Some result \<Longrightarrow> readyState (fst result) = readyState st"
  by (auto simp: onFrame_def onMessage_readyState)

text \<open>
  Claim C3, as the spec states it: a frame whose type is not one of the known ones gets an
  error reply. On the code such a frame falls through the chain of tests and nothing is
  sent at all: here the frame \<open>{"type": "ping"}\<close> on a fresh connection.
\<close>

theorem unknown_type_counterexample:
  "onFrame MemStorage 7 (Inr (JObj [(''type'', JStr ''ping'')]))
       (onConnection 7 (initServer exampleStore))
     = Some (onConnection 7 (initServer exampleStore), [])"
  by (simp add: frame_defs onMessage_def)

text \<open>
  Claim C3, amended: a frame on which \<open>JSON.parse\<close> throws, or which parses to \<open>null\<close>,
  gets exactly one error reply, sent to the originating connection, and changes nothing;
  a frame that parses to any other value and whose \<open>type\<close> is missing or is not one of
  the three known ones is ignored: nothing is sent and nothing changes; and no frame,
  be it malformed, of unknown type, or of a known type with ids and content of the
  declared types, makes the server change the \<open>readyState\<close> of any connection, so none
  closes it.
\<close>

theorem malformed_and_unknown_frames:
  "(raw = Inl e \<or> raw = Inr JNull \<longrightarrow>
      onFrame S sock raw st = Some (st, [Send sock (Error_msg ''Invalid message format'')]))
   \<and> (raw = Inr data \<and> data \<noteq> JNull
        \<and> property data ''type'' \<noteq> Inr (Some (JStr ''auth''))
        \<and> property data ''type'' \<noteq> Inr (Some (JStr ''document_edit''))
        \<and> property data ''type'' \<noteq> Inr (Some (JStr ''cursor_position'')) \<longrightarrow>
      onFrame S sock raw st = Some (st, []))
   \<and> (onFrame S sock raw st = Some result \<longrightarrow> readyState (fst result) = readyState st)"
proof (intro conjI impI)
  assume "raw = Inl e \<or> raw = Inr JNull"
  then show "onFrame S sock raw st = Some (st, [Send sock (Error_msg ''Invalid message format'')])"
    by (auto simp: frame_defs onMessage_def caught_def)
next
  assume a: "raw = Inr data \<and> data \<noteq> JNull
        \<and> property data ''type'' \<noteq> Inr (Some (JStr ''auth''))
        \<and> property data ''type'' \<noteq> Inr (Some (JStr ''document_edit''))
        \<and> property data ''type'' \<noteq> Inr (Some (JStr ''cursor_position''))"
  then obtain t where t: "property data ''type'' = Inr t"
    using property_of_value by blast
  with a show "onFrame S sock raw st = Some (st, [])"
    by (simp add: frame_defs onMessage_def)
next
  assume "onFrame S sock raw st = Some result"
  then show "readyState (fst result) = readyState st" by (rule onFrame_readyState)
qed

theorem malformed_and_unknown_frames_witness:
  "onFrame MemStorage 1 (Inl SyntaxError) (aliceAndBob MemStorage exampleStore)
     = Some (aliceAndBob MemStorage exampleStore, [Send 1 (Error_msg ''Invalid message format'')])
   \<and> onFrame MemStorage 1 (Inr JNull) (aliceAndBob MemStorage exampleStore)
     = Some (aliceAndBob MemStorage exampleStore, [Send 1 (Error_msg ''Invalid message format'')])
   \<and> property (JObj [(''type'', JStr ''ping'')]) ''type'' = Inr (Some (JStr ''ping''))
   \<and> onFrame MemStorage 1 (Inr (JObj [(''type'', JStr ''ping'')])) (aliceAndBob MemStorage exampleStore)
     = Some (aliceAndBob MemStorage exampleStore, [])
   \<and> property (JInt 5) ''type'' = Inr None
   \<and> onFrame MemStorage 1 (Inr (JInt 5)) (aliceAndBob MemStorage exampleStore)
     = Some (aliceAndBob MemStorage exampleStore, [])
   \<and> map_option (\<lambda>result. readyState (fst result) 1)
        (onFrame MemStorage 1
           (Inr (JObj [(''type'', JStr ''document_edit''), (''documentId'', JInt 3),
                       (''content'', JStr ''X'')]))
           (aliceAndBob MemStorage exampleStore))
     = Some OPEN"
  using malformed_and_unknown_frames
          [of "Inl SyntaxError" SyntaxError MemStorage 1 "aliceAndBob MemStorage exampleStore"]
        malformed_and_unknown_frames
          [of "Inr JNull" _ MemStorage 1 "aliceAndBob MemStorage exampleStore"]
        malformed_and_unknown_frames
          [of "Inr (JObj [(''type'', JStr ''ping'')])" _ MemStorage 1
              "aliceAndBob MemStorage exampleStore" "JObj [(''type'', JStr ''ping'')]"]
        malformed_and_unknown_frames
          [of "Inr (JInt 5)" _ MemStorage 1 "aliceAndBob MemStorage exampleStore" "JInt 5"]
        malformed_and_unknown_frames
          [of "Inr (JObj [(''type'', JStr ''document_edit''), (''documentId'', JInt 3),
                          (''content'', JStr ''X'')])" _ MemStorage 1
              "aliceAndBob MemStorage exampleStore" _
              "(aliceAndBob MemStorage exampleStore
                  \<lparr> storage := fst (projr (mem_updateDocument exampleStore 3 ''X'')) \<rparr>,
                [UpdateDocumentCall 3 ''X'', Send 2 (Document_update 3 ''X'' 1 None)])"]
  unfolding aliceAndBob_mem by (simp add: frame_defs server_defs mem_defs)

subsection \<open>Edits\<close>




text \<open>
  Claim C7: on a connection authenticated for a document, a \<open>document_edit\<close> naming another
  document is answered with one error reply to the sender; nothing is broadcast, the store
  is not called and the server's state is as it was.
\<close>

theorem edit_for_other_document_rejected:
  assumes "clientInfo st sock = Some info" and "did \<noteq> documentId info"
  shows "onMessage S sock (Document_edit did c cur) st
           = (st, [Send sock (Error_msg ''Invalid document ID'')])"
  using assms by (simp add: onMessage_def handleDocumentEdit_def)

theorem edit_for_other_document_rejected_witness:
  "clientInfo (fst (run MemStorage [Connection 1, Message 1 (Auth 2 3)] (initServer exampleStore))) 1
      = Some \<lparr> userId = 2, documentId = 3, ws = 1 \<rparr>
   \<and> (7::int) \<noteq> documentId \<lparr> userId = 2, documentId = 3, ws = 1 \<rparr>
   \<and> snd (onMessage MemStorage 1 (Document_edit 7 ''X'' None)
           (fst (run MemStorage [Connection 1, Message 1 (Auth 2 3)] (initServer exampleStore))))
       = [Send 1 (Error_msg ''Invalid document ID'')]"
  using edit_for_other_document_rejected
    [of "fst (run MemStorage [Connection 1, Message 1 (Auth 2 3)] (initServer exampleStore))"
        1 "\<lparr> userId = 2, documentId = 3, ws = 1 \<rparr>" 7 MemStorage "''X''" None]
  by (simp add: server_defs mem_defs)

text \<open>
  An edit reaches every tuple of the registry on the same document whose socket is
  another one and is open, provided the store accepts the update; every message sent is
  the \<open>document_update\<close> with the sender's user id, and none goes to the sender.
\<close>

lemma edit_reaches_registered_socket:
  assumes "clientInfo st a = Some infoA"
    and "infoB \<in> set (clients st)"
    and "documentId infoB = documentId infoA"
    and "ws infoB \<noteq> a"
    and "readyState st (ws infoB) = OPEN"
    and "\<not> isl (updateDocument S (storage st) (documentId infoA) x)"
  shows "Send (ws infoB) (Document_update (documentId infoA) x (userId infoA) cur)
           \<in> set (snd (onMessage S a (Document_edit (documentId infoA) x cur) st))
       \<and> (\<forall>w m. Send w m \<in> set (snd (onMessage S a (Document_edit (documentId infoA) x cur) st))
            \<longrightarrow> w \<noteq> a \<and> m = Document_update (documentId infoA) x (userId infoA) cur)"
proof -
  obtain sto upd where r: "updateDocument S (storage st) (documentId infoA) x = Inr (sto, upd)"
    using assms(6) by (cases "updateDocument S (storage st) (documentId infoA) x") auto
  have out: "snd (onMessage S a (Document_edit (documentId infoA) x cur) st) =
      UpdateDocumentCall (documentId infoA) x #
      broadcastToDocument st (documentId infoA)
        (Document_update (documentId infoA) x (userId infoA) cur) (Some a)"
    using assms(1) r by (simp add: onMessage_def handleDocumentEdit_def)
  show ?thesis
    unfolding out using assms(2-5) by (auto simp: broadcast_member)
qed

text \<open>
  Claim C8: when \<open>A\<close> and \<open>B\<close> are both subscribed to a document and \<open>A\<close> sends an edit
  with content \<open>X\<close>, \<open>B\<close> receives a \<open>document_update\<close> with content \<open>X\<close> and
  \<open>updatedBy\<close> \<open>A\<close>'s id. Whether \<open>B\<close>'s socket is reached depends on its tuple still
  being in the registry, and the \<open>close\<close> handler of another connection of the same user
  can take it out. Run on the code: Bob subscribes on sockets 1 and 2, Alice on socket 5,
  socket 2 closes, Alice sends \<open>X\<close>. Socket 1 has subscribed (it was sent the document
  and the roster), is still bound to the document and still open, the store takes the
  edit, and yet nothing is sent to socket 1: the only effect of the edit is the store call.
\<close>

theorem subscribed_tab_misses_update:
  "snd (run MemStorage
          [Connection 1, Message 1 (Auth 2 3), Connection 2, Message 2 (Auth 2 3),
           Connection 5, Message 5 (Auth 1 3), Close 2,
           Message 5 (Document_edit 3 ''X'' None)]
          (initServer exampleStore))
     = [Send 1 (Document_data 3 (Some ''old'')),
        Send 1 (Active_users [(2, ''bob'', ''Bob'')]),
        Send 1 (User_joined 2 ''bob'' ''Bob''),
        Send 2 (Document_data 3 (Some ''old'')),
        Send 2 (Active_users [(2, ''bob'', ''Bob''), (2, ''bob'', ''Bob'')]),
        Send 1 (User_joined 1 ''alice'' ''Alice''),
        Send 2 (User_joined 1 ''alice'' ''Alice''),
        Send 5 (Document_data 3 (Some ''old'')),
        Send 5 (Active_users [(2, ''bob'', ''Bob''), (2, ''bob'', ''Bob''), (1, ''alice'', ''Alice'')]),
        Send 5 (User_left 2),
        UpdateDocumentCall 3 ''X'']
   \<and> clientInfo (fst (onClose 2 bobInTwoTabs)) 1 = Some \<lparr> userId = 2, documentId = 3, ws = 1 \<rparr>
   \<and> readyState (fst (onClose 2 bobInTwoTabs)) 1 = OPEN
   \<and> clientInfo (fst (onClose 2 bobInTwoTabs)) 5 = Some \<lparr> userId = 1, documentId = 3, ws = 5 \<rparr>
   \<and> onMessage MemStorage 5 (Document_edit 3 ''X'' None) (fst (onClose 2 bobInTwoTabs))
     = ((fst (onClose 2 bobInTwoTabs))
          \<lparr> storage := fst (projr (mem_updateDocument exampleStore 3 ''X'')) \<rparr>,
        [UpdateDocumentCall 3 ''X''])
   \<and> map_option doc_content (documents (fst (projr (mem_updateDocument exampleStore 3 ''X''))) 3)
     = Some (Some ''X'')"
  by (simp add: bobInTwoTabs_def server_defs mem_defs)

text \<open>
  Claim C10: the bound document is gone from the store. \<open>MemStorage.updateDocument\<close> then
  returns \<open>undefined\<close> and leaves the store alone instead of failing, so the edit of the
  session draws no reply to its sender and the \<open>document_update\<close> with the new content is
  still broadcast, reaching every other participant of the document with an open socket.
\<close>

theorem edit_after_document_deleted:
  assumes "documents (storage st) d = None"
    and "clientInfo st sock = Some info"
    and "documentId info = d"
  shows "updateDocument MemStorage (storage st) d c = Inr (storage st, None)
       \<and> onMessage MemStorage sock (Document_edit d c cur) st
           = (st, UpdateDocumentCall d c #
                  broadcastToDocument st d (Document_update d c (userId info) cur) (Some sock))
       \<and> (\<forall>m. Send sock m \<notin> set (snd (onMessage MemStorage sock (Document_edit d c cur) st)))
       \<and> (\<forall>other\<in>set (clients st).
             documentId other = d \<and> ws other \<noteq> sock \<and> readyState st (ws other) = OPEN \<longrightarrow>
             Send (ws other) (Document_update d c (userId info) cur)
               \<in> set (snd (onMessage MemStorage sock (Document_edit d c cur) st)))"
proof -
  have u: "updateDocument MemStorage (storage st) d c = Inr (storage st, None)"
    using assms(1) by (simp add: MemStorage_def mem_updateDocument_def)
  have out: "onMessage MemStorage sock (Document_edit d c cur) st
           = (st, UpdateDocumentCall d c #
                  broadcastToDocument st d (Document_update d c (userId info) cur) (Some sock))"
    using assms(2,3) u by (simp add: onMessage_def handleDocumentEdit_def)
  show ?thesis
    unfolding out using u by (auto simp: broadcast_member)
qed

theorem edit_after_document_deleted_witness:
  "documents (fst (mem_deleteDocument exampleStore 3)) 3 = None
   \<and> clientInfo (aliceAndBob MemStorage exampleStore) 1 = Some \<lparr> userId = 1, documentId = 3, ws = 1 \<rparr>
   \<and> snd (onMessage MemStorage 1 (Document_edit 3 ''X'' None)
           ((aliceAndBob MemStorage exampleStore)
              \<lparr> storage := fst (mem_deleteDocument exampleStore 3) \<rparr>))
      = [UpdateDocumentCall 3 ''X'', Send 2 (Document_update 3 ''X'' 1 None)]"
  using edit_after_document_deleted
    [of "(aliceAndBob MemStorage exampleStore)
           \<lparr> storage := fst (mem_deleteDocument exampleStore 3) \<rparr>"
        3 1 "\<lparr> userId = 1, documentId = 3, ws = 1 \<rparr>" "''X''" None]
  unfolding aliceAndBob_mem by (simp add: mem_deleteDocument_def server_defs mem_defs)

subsection \<open>Subscribing\<close>

text \<open>
  Claim C9: the user of an \<open>auth\<close> message is neither the owner of the referenced document
  (whatever document the store returns for it has another owner) nor among its
  collaborators (whatever list the store returns does not hold the user). Then the
  connection gets exactly one error reply and the server's state is as it was: the
  registry \<open>clients\<close> has no new entry and the connection is still unauthenticated.
\<close>

theorem auth_without_access_rejected:
  assumes "\<forall>document. getDocument S (storage st) did = Inr (Some document)
             \<longrightarrow> ownerId document \<noteq> uid"
    and "\<forall>collabs. getCollaborators S (storage st) did = Inr collabs
             \<longrightarrow> \<not> list_ex (\<lambda>collab. collab_userId (fst collab) = uid) collabs"
  shows "(\<exists>m. snd (onMessage S sock (Auth uid did) st) = [Send sock (Error_msg m)])
       \<and> fst (onMessage S sock (Auth uid did) st) = st
       \<and> clients (fst (onMessage S sock (Auth uid did) st)) = clients st
       \<and> clientInfo (fst (onMessage S sock (Auth uid did) st)) = clientInfo st"
proof -
  have "(\<exists>m. snd (handleAuth S sock uid did st) = [Send sock (Error_msg m)])
        \<and> fst (handleAuth S sock uid did st) = st"
    using assms
    by (auto simp: handleAuth_def caught_def split: sum.splits option.splits)
  then show ?thesis by (simp add: onMessage_def)
qed

theorem auth_without_access_rejected_witness:
  "getDocument MemStorage exampleStore 3
      = Inr (Some \<lparr> doc_id = 3, title = ''Notes'', doc_content = Some ''old'', ownerId = 1 \<rparr>)
   \<and> getCollaborators MemStorage exampleStore 3
      = Inr [(\<lparr> collab_id = 1, collab_documentId = 3, collab_userId = 2, role = ''viewer'' \<rparr>, bob)]
   \<and> onMessage MemStorage 4 (Auth 3 3) (aliceAndBob MemStorage exampleStore)
      = (aliceAndBob MemStorage exampleStore, [Send 4 (Error_msg ''No access to document'')])"
  using auth_without_access_rejected [of MemStorage "aliceAndBob MemStorage exampleStore" 3 3 4]
  unfolding aliceAndBob_mem by (simp add: server_defs mem_defs)


subsection \<open>Closing a connection\<close>

text \<open>
  Claim C4: when a connection registered for \<open>A\<close> on \<open>D\<close> closes, the registry tuples of
  that connection, and only of that connection, are removed, every other participant gets
  exactly one \<open>user_left\<close>, the roster of \<open>D\<close> no longer has \<open>A\<close>, and a second
  unregistration does nothing. The \<open>close\<close> handler looks its tuple up by user and
  document, not by socket. Run on the code with Bob in two tabs: closing socket 2 removes
  the tuple of socket 1, which is still open, and keeps the tuple of the closed socket 2;
  the roster still has Bob; a second run of the handler removes a further tuple and sends
  \<open>user_left\<close> again; and Alice's next edit is no longer delivered to Bob's open tab.
\<close>

theorem close_removes_other_tab:
  "clients bobInTwoTabs
     = [\<lparr> userId = 2, documentId = 3, ws = 1 \<rparr>, \<lparr> userId = 2, documentId = 3, ws = 2 \<rparr>,
        \<lparr> userId = 1, documentId = 3, ws = 5 \<rparr>]
   \<and> clients (fst (onClose 2 bobInTwoTabs))
     = [\<lparr> userId = 2, documentId = 3, ws = 2 \<rparr>, \<lparr> userId = 1, documentId = 3, ws = 5 \<rparr>]
   \<and> snd (onClose 2 bobInTwoTabs) = [Send 5 (User_left 2)]
   \<and> readyState (fst (onClose 2 bobInTwoTabs)) 1 = OPEN
   \<and> clients (fst (onClose 2 (fst (onClose 2 bobInTwoTabs))))
     = [\<lparr> userId = 1, documentId = 3, ws = 5 \<rparr>]
   \<and> snd (onClose 2 (fst (onClose 2 bobInTwoTabs))) = [Send 5 (User_left 2)]
   \<and> snd (onMessage MemStorage 5 (Document_edit 3 ''X'' None) (fst (onClose 2 bobInTwoTabs)))
     = [UpdateDocumentCall 3 ''X'']"
  by (simp add: bobInTwoTabs_def server_defs mem_defs)

text \<open>
  Where the closing connection holds the only tuple of its socket and of its user on that
  document, the handler does what the claim says: exactly the connection's tuple goes,
  each other tuple of the document with an open socket is sent one \<open>user_left\<close>, the
  document's roster has lost the user, and running the handler again changes nothing.
\<close>

lemma findIndex_None: "findIndex P xs = None \<longleftrightarrow> (\<forall>x\<in>set xs. \<not> P x)"
  by (induction xs) auto

lemma splice1_findIndex_unique:
  "findIndex P xs = Some i \<Longrightarrow> distinct xs \<Longrightarrow>
   (\<forall>x\<in>set xs. \<forall>y\<in>set xs. P x \<and> P y \<longrightarrow> x = y) \<Longrightarrow>
   splice1 i xs = filter (\<lambda>x. \<not> P x) xs"
proof (induction xs arbitrary: i)
  case Nil
  then show ?case by simp
next
  case (Cons x xs)
  show ?case
  proof (cases "P x")
    case True
    then have i: "i = 0" using Cons.prems(1) by simp
    have "\<forall>y\<in>set xs. \<not> P y" using Cons.prems(2,3) True by auto
    then have "filter (\<lambda>x. \<not> P x) xs = xs" by (simp add: filter_id_conv)
    with True i show ?thesis by (simp add: splice1_def)
  next
    case False
    with Cons.prems(1) obtain k where k: "findIndex P xs = Some k" "i = Suc k"
      by (auto split: if_splits)
    have "splice1 k xs = filter (\<lambda>x. \<not> P x) xs"
      using Cons.IH [OF k(1)] Cons.prems(2,3) by simp
    with False k(2) show ?thesis by (simp add: splice1_def)
  qed
qed

lemma close_single_session:
  assumes info: "clientInfo st a = Some info" "ws info = a" "info \<in> set (clients st)"
    and dist: "distinct (clients st)"
    and single: "\<forall>c\<in>set (clients st).
        ws c = a \<or> (userId c = userId info \<and> documentId c = documentId info) \<longrightarrow> c = info"
  shows "clients (fst (onClose a st)) = filter (\<lambda>c. ws c \<noteq> a) (clients st)"
    and "snd (onClose a st) =
           map (\<lambda>c. Send (ws c) (User_left (userId info)))
             (filter (\<lambda>c. documentId c = documentId info \<and> ws c \<noteq> a \<and> readyState st (ws c) = OPEN)
                (clients st))"
    and "\<forall>c\<in>set (clients (fst (onClose a st))).
           documentId c = documentId info \<longrightarrow> userId c \<noteq> userId info"
    and "onClose a (fst (onClose a st)) = (fst (onClose a st), [])"
proof -
  let ?P = "\<lambda>c. userId c = userId info \<and> documentId c = documentId info"
  have ex: "\<exists>x\<in>set (clients st). ?P x" using info(3) by blast
  then obtain i where i: "findIndex ?P (clients st) = Some i"
    using findIndex_None [of ?P "clients st"] by (cases "findIndex ?P (clients st)") auto
  have uniq: "\<forall>x\<in>set (clients st). \<forall>y\<in>set (clients st). ?P x \<and> ?P y \<longrightarrow> x = y"
    using single by metis
  have same: "filter (\<lambda>c. \<not> ?P c) (clients st) = filter (\<lambda>c. ws c \<noteq> a) (clients st)"
    using single info(2) by (intro filter_cong) auto
  have sp: "splice1 i (clients st) = filter (\<lambda>c. ws c \<noteq> a) (clients st)"
    using splice1_findIndex_unique [OF i dist uniq] same by simp
  have res: "onClose a st =
      (st\<lparr> readyState := (readyState st)(a := CLOSED),
           clients := filter (\<lambda>c. ws c \<noteq> a) (clients st) \<rparr>,
       broadcastToDocument
         (st\<lparr> readyState := (readyState st)(a := CLOSED),
              clients := filter (\<lambda>c. ws c \<noteq> a) (clients st) \<rparr>)
         (documentId info) (User_left (userId info)) None)"
    using info(1) i sp by (simp add: onClose_def Let_def)
  show c1: "clients (fst (onClose a st)) = filter (\<lambda>c. ws c \<noteq> a) (clients st)"
    by (simp add: res)
  show "snd (onClose a st) =
           map (\<lambda>c. Send (ws c) (User_left (userId info)))
             (filter (\<lambda>c. documentId c = documentId info \<and> ws c \<noteq> a \<and> readyState st (ws c) = OPEN)
                (clients st))"
  proof -
    have "filter (\<lambda>c. documentId c = documentId info \<and> Some (ws c) \<noteq> None
                       \<and> ((readyState st)(a := CLOSED)) (ws c) = OPEN)
            (filter (\<lambda>c. ws c \<noteq> a) (clients st))
          = filter (\<lambda>c. documentId c = documentId info \<and> ws c \<noteq> a \<and> readyState st (ws c) = OPEN)
              (clients st)"
      unfolding filter_filter by (rule filter_cong) auto
    then show ?thesis by (simp add: res broadcastToDocument_def del: filter_filter)
  qed
  show c3: "\<forall>c\<in>set (clients (fst (onClose a st))).
           documentId c = documentId info \<longrightarrow> userId c \<noteq> userId info"
    unfolding c1 using single info(2) by auto
  have none: "findIndex ?P (clients (fst (onClose a st))) = None"
    using c3 by (auto simp: findIndex_None)
  have ci: "clientInfo (fst (onClose a st)) a = Some info"
    using info(1) by (simp add: res)
  have rs: "(readyState (fst (onClose a st)))(a := CLOSED) = readyState (fst (onClose a st))"
    by (simp add: res)
  show "onClose a (fst (onClose a st)) = (fst (onClose a st), [])"
    using none ci rs by (simp add: onClose_def Let_def)
qed

end
